theory Spec2Isabelle
  imports Complex_Main "HOL-Library.Sublist"
begin

section \<open>Values\<close>

text \<open>
  What \<^verbatim>\<open>response.json()\<close> returns: a Python value built from JSON. An object is a
  dict, kept as an association list that is read with \<open>map_of\<close>. A float is kept as its
  literal text, since the client never computes with the numbers of a body.
\<close>

datatype json =
    JNull
  | JBool bool
  | JInt int
  | JFloat string
  | JStr string
  | JArr "json list"
  | JObj "(string \<times> json) list"

section \<open>exceptions.py\<close>

text \<open>
  The five exception classes. An exception object is a record of its attributes;
  \<open>status_code\<close> and \<open>retry_after\<close> exist only on the classes that set them. The
  message and the code are whatever the caller passes: \<open>HttpClient.request\<close> passes
  values read from the response body, which need not be strings.
\<close>

datatype primis_class =
    PrimisError_class
  | PrimisAPIError_class
  | PrimisTimeoutError_class
  | PrimisAuthError_class
  | PrimisRateLimitError_class

record primis_error =
  cls :: primis_class
  message :: json
  code :: json
  status_code :: "int option"
  retry_after :: "int option"

definition PrimisError :: "json \<Rightarrow> json \<Rightarrow> primis_error" where
  "PrimisError msg c =
     \<lparr>cls = PrimisError_class, message = msg, code = c, status_code = None, retry_after = None\<rparr>"

text \<open>The default of the second argument of \<^verbatim>\<open>PrimisError.__init__\<close>.\<close>

definition PrimisError1 :: "json \<Rightarrow> primis_error" where
  "PrimisError1 msg = PrimisError msg (JStr ''UNKNOWN'')"

definition PrimisAPIError :: "json \<Rightarrow> json \<Rightarrow> int \<Rightarrow> primis_error" where
  "PrimisAPIError msg c st =
     (PrimisError msg c)\<lparr>cls := PrimisAPIError_class, status_code := Some st\<rparr>"

definition PrimisTimeoutError :: "json \<Rightarrow> primis_error" where
  "PrimisTimeoutError msg = (PrimisError msg (JStr ''TIMEOUT''))\<lparr>cls := PrimisTimeoutError_class\<rparr>"

definition PrimisAuthError :: "json \<Rightarrow> primis_error" where
  "PrimisAuthError msg =
     (PrimisAPIError msg (JStr ''AUTH_ERROR'') 401)\<lparr>cls := PrimisAuthError_class\<rparr>"

definition PrimisRateLimitError :: "json \<Rightarrow> int \<Rightarrow> primis_error" where
  "PrimisRateLimitError msg ra =
     (PrimisAPIError msg (JStr ''RATE_LIMIT_EXCEEDED'') 429)
       \<lparr>cls := PrimisRateLimitError_class, retry_after := Some ra\<rparr>"

text \<open>
  Everything that can be raised through the client: an exception of the library, a Python
  built-in exception, or an exception of the \<^verbatim>\<open>requests\<close> package with its text.
\<close>

datatype builtin_exception = AttributeError | KeyError | TypeError | ValueError

datatype requests_exception =
    RequestException
  | ConnectionError
  | ProxyError
  | SSLError
  | Timeout
  | ConnectTimeout
  | ReadTimeout
  | TooManyRedirects
  | ChunkedEncodingError

text \<open>
  The two \<^verbatim>\<open>except\<close> clauses of \<open>request\<close> match by class: \<^verbatim>\<open>ConnectTimeout\<close> inherits
  from both \<^verbatim>\<open>ConnectionError\<close> and \<^verbatim>\<open>Timeout\<close>.
\<close>

definition isinstance_Timeout :: "requests_exception \<Rightarrow> bool" where
  "isinstance_Timeout x = (x = Timeout \<or> x = ConnectTimeout \<or> x = ReadTimeout)"

definition isinstance_ConnectionError :: "requests_exception \<Rightarrow> bool" where
  "isinstance_ConnectionError x =
     (x = ConnectionError \<or> x = ProxyError \<or> x = SSLError \<or> x = ConnectTimeout)"

datatype exn =
    Primis primis_error
  | Builtin builtin_exception
  | Requests requests_exception string

text \<open>The typed errors are the instances of \<^verbatim>\<open>PrimisError\<close>.\<close>

fun typed :: "exn \<Rightarrow> bool" where
  "typed (Primis e) = True"
| "typed (Builtin b) = False"
| "typed (Requests x s) = False"

section \<open>Python built-ins used by the client\<close>

text \<open>\<^verbatim>\<open>str(n)\<close> of an integer, as an f-string renders a status code.\<close>

fun digits :: "nat \<Rightarrow> string" where
  "digits n =
     (if n < 10 then [''0123456789'' ! n]
      else digits (n div 10) @ [''0123456789'' ! (n mod 10)])"

declare digits.simps [simp del]

definition str_int :: "int \<Rightarrow> string" where
  "str_int i = (if i < 0 then CHR ''-'' # digits (nat (- i)) else digits (nat i))"

text \<open>
  \<^verbatim>\<open>int(s)\<close> of a string: surrounding whitespace is dropped, one sign is allowed, and the
  rest is decimal digits, where single underscores may stand between digits. Anything
  else raises \<^verbatim>\<open>ValueError\<close>, and so does a string of more digits than the interpreter's
  limit, 4300 unless configured otherwise; leading zeros count as digits, underscores, the
  sign and the whitespace do not. A header value is a string of the characters 0 to 255.
  Of these \<^verbatim>\<open>int()\<close> drops the six ASCII whitespace characters and the two
  whitespace characters above 127; unlike \<^verbatim>\<open>str.strip()\<close> it does not drop the
  separators 0x1C to 0x1F.
\<close>

definition is_space :: "char \<Rightarrow> bool" where
  "is_space c = (c \<in> set [CHR '' '', CHR 0x09, CHR 0x0A, CHR 0x0B, CHR 0x0C, CHR 0x0D,
                          CHR 0x85, CHR 0xA0])"

definition int_max_str_digits :: nat where
  "int_max_str_digits = 4300"

definition strip :: "string \<Rightarrow> string" where
  "strip s = rev (dropWhile is_space (rev (dropWhile is_space s)))"

definition is_digit :: "char \<Rightarrow> bool" where
  "is_digit c = (c \<in> set ''0123456789'')"

definition digit_val :: "char \<Rightarrow> nat" where
  "digit_val c = of_char c - 48"

fun digits_val :: "nat \<Rightarrow> string \<Rightarrow> nat option" where
  "digits_val acc [] = Some acc"
| "digits_val acc (c # cs) =
     (if is_digit c then digits_val (10 * acc + digit_val c) cs
      else if c = CHR ''_'' \<and> cs \<noteq> [] \<and> is_digit (hd cs) then digits_val acc cs
      else None)"

definition int_str :: "string \<Rightarrow> builtin_exception + int" where
  "int_str s =
     (let t = strip s;
          neg = (t \<noteq> [] \<and> hd t = CHR ''-'');
          u = (if t \<noteq> [] \<and> (hd t = CHR ''-'' \<or> hd t = CHR ''+'') then tl t else t)
      in if u = [] \<or> \<not> is_digit (hd u) then Inl ValueError
         else if int_max_str_digits < length (filter is_digit u) then Inl ValueError
         else (case digits_val 0 u of
                 None \<Rightarrow> Inl ValueError
               | Some n \<Rightarrow> Inr (if neg then - int n else int n)))"

text \<open>\<^verbatim>\<open>int(x)\<close> where \<open>x\<close> is a string or already an integer.\<close>

fun py_int :: "string + int \<Rightarrow> builtin_exception + int" where
  "py_int (Inl s) = int_str s"
| "py_int (Inr n) = Inr n"

text \<open>\<^verbatim>\<open>s.rstrip("/")\<close>: every trailing occurrence of the character is removed.\<close>

definition rstrip :: "char \<Rightarrow> string \<Rightarrow> string" where
  "rstrip c s = rev (dropWhile (\<lambda>x. x = c) (rev s))"

text \<open>
  \<^verbatim>\<open>d.get(key, default)\<close>: defined on a dict only; on any other value the attribute
  lookup raises \<^verbatim>\<open>AttributeError\<close>.
\<close>

fun dict_get :: "json \<Rightarrow> string \<Rightarrow> json \<Rightarrow> builtin_exception + json" where
  "dict_get (JObj kvs) k d = Inr (case map_of kvs k of None \<Rightarrow> d | Some v \<Rightarrow> v)"
| "dict_get v k d = Inl AttributeError"

text \<open>
  \<^verbatim>\<open>d[key]\<close> with a string key: \<^verbatim>\<open>KeyError\<close> on a dict without the key,
  \<^verbatim>\<open>TypeError\<close> on every value that is not a dict.
\<close>

fun subscript :: "json \<Rightarrow> string \<Rightarrow> builtin_exception + json" where
  "subscript (JObj kvs) k = (case map_of kvs k of None \<Rightarrow> Inl KeyError | Some v \<Rightarrow> Inr v)"
| "subscript v k = Inl TypeError"

section \<open>The transport and the clock\<close>

text \<open>
  One call of \<^verbatim>\<open>session.request\<close> either returns a response or raises. Of a response
  the client reads the status code, the headers (a case-insensitive dict) and
  \<^verbatim>\<open>response.json()\<close>, which is \<open>None\<close> here when the body is not valid JSON.
\<close>

record http_request =
  req_method :: string
  req_url :: string
  req_json :: "json option"
  req_params :: "json option"
  req_timeout :: int
  req_headers :: "(string \<times> string) list"

record response =
  resp_status_code :: int
  resp_headers :: "(string \<times> string) list"
  resp_json :: "json option"

datatype transport_result =
    Responded response
  | Raised requests_exception string

text \<open>\<^verbatim>\<open>response.ok\<close> of \<^verbatim>\<open>requests\<close>: false exactly for the statuses 400 to 599.\<close>

definition ok :: "response \<Rightarrow> bool" where
  "ok r = (\<not> (400 \<le> resp_status_code r \<and> resp_status_code r < 600))"

definition lower_char :: "char \<Rightarrow> char" where
  "lower_char c =
     (case map_of (zip ''ABCDEFGHIJKLMNOPQRSTUVWXYZ'' ''abcdefghijklmnopqrstuvwxyz'') c of
        None \<Rightarrow> c
      | Some l \<Rightarrow> l)"

text \<open>\<^verbatim>\<open>response.headers.get(key, default)\<close>, the key compared without regard to case.\<close>

definition headers_get :: "(string \<times> string) list \<Rightarrow> string \<Rightarrow> 'a \<Rightarrow> string + 'a" where
  "headers_get hs k d =
     (case map_of (map (\<lambda>(n, v). (map lower_char n, v)) hs) (map lower_char k) of
        None \<Rightarrow> Inr d
      | Some v \<Rightarrow> Inl v)"

text \<open>
  The world outside the process: what the \<open>n\<close>-th call of \<^verbatim>\<open>time.time()\<close> reads, what
  the \<open>n\<close>-th call of \<^verbatim>\<open>session.request\<close> does with the request it is given, and how the
  interpreter prints a float. Seconds are real numbers. \<open>trace\<close> lists the requests sent
  and the sleeps taken so far, oldest first.
\<close>

datatype event = Sent http_request | Slept real

record world =
  readings :: "nat \<Rightarrow> real"
  reads :: nat
  server :: "nat \<Rightarrow> http_request \<Rightarrow> transport_result"
  sent :: nat
  trace :: "event list"
  str_float :: "real \<Rightarrow> string"

definition time_time :: "world \<Rightarrow> real \<times> world" where
  "time_time w = (readings w (reads w), w\<lparr>reads := Suc (reads w)\<rparr>)"

text \<open>\<^verbatim>\<open>time.sleep(secs)\<close> raises \<^verbatim>\<open>ValueError\<close> on a negative length.\<close>

definition time_sleep :: "real \<Rightarrow> world \<Rightarrow> (exn + unit) \<times> world" where
  "time_sleep secs w =
     (if secs < 0 then (Inl (Builtin ValueError), w)
      else (Inr (), w\<lparr>trace := trace w @ [Slept secs]\<rparr>))"

definition session_request :: "http_request \<Rightarrow> world \<Rightarrow> transport_result \<times> world" where
  "session_request rq w =
     (server w (sent w) rq, w\<lparr>sent := Suc (sent w), trace := trace w @ [Sent rq]\<rparr>)"

section \<open>client.py: \<open>HttpClient\<close>\<close>

record http_client =
  api_key :: string
  base_url :: string
  timeout :: int
  session_headers :: "(string \<times> string) list"

definition default_base_url :: string where
  "default_base_url = ''http://localhost:3001''"

definition default_timeout :: int where
  "default_timeout = 30"

text \<open>
  \<^verbatim>\<open>HttpClient.__init__\<close>. The constructor is given the world and hands it back, so that
  what it does to the network can be read off the result.
\<close>

definition HttpClient_init ::
  "string \<Rightarrow> string \<Rightarrow> int \<Rightarrow> world \<Rightarrow> (exn + http_client) \<times> world" where
  "HttpClient_init key url tmo w =
     (if \<not> prefix ''prmis_'' key
      then (Inl (Primis (PrimisError1
              (JStr (''Invalid API key format. Keys must start with '' @
                     [CHR 0x27] @ ''prmis_'' @ [CHR 0x27])))), w)
      else (Inr \<lparr>api_key = key,
                 base_url = rstrip CHR ''/'' url,
                 timeout = tmo,
                 session_headers = [(''Authorization'', ''Bearer '' @ key),
                                    (''Content-Type'', ''application/json'')]\<rparr>, w))"

text \<open>
  Lines 97 to 129 of \<open>request\<close>: what the function makes of the outcome of
  \<^verbatim>\<open>session.request\<close>. The \<^verbatim>\<open>except\<close> clauses are tried in the order written; an
  exception that neither clause matches passes through unchanged.
\<close>

definition translate :: "string \<Rightarrow> transport_result \<Rightarrow> exn + json" where
  "translate path out =
     (case out of
        Raised x text \<Rightarrow>
          if isinstance_Timeout x
          then Inl (Primis (PrimisTimeoutError (JStr (''Request to '' @ path @ '' timed out''))))
          else if isinstance_ConnectionError x
          then Inl (Primis (PrimisError (JStr (''Connection error: '' @ text))
                                        (JStr ''CONNECTION_ERROR'')))
          else Inl (Requests x text)
      | Responded r \<Rightarrow>
          (case resp_json r of
             None \<Rightarrow>
               Inl (Primis (PrimisError (JStr (''Invalid JSON response from '' @ path))
                                        (JStr ''PARSE_ERROR'')))
           | Some data \<Rightarrow>
               if \<not> ok r then
                 (case dict_get data ''error'' (JStr (''HTTP '' @ str_int (resp_status_code r))) of
                    Inl b \<Rightarrow> Inl (Builtin b)
                  | Inr error_msg \<Rightarrow>
                      (case dict_get data ''code'' (JStr ''HTTP_ERROR'') of
                         Inl b \<Rightarrow> Inl (Builtin b)
                       | Inr error_code \<Rightarrow>
                           if resp_status_code r = 401
                           then Inl (Primis (PrimisAuthError error_msg))
                           else if resp_status_code r = 429
                           then (case py_int (headers_get (resp_headers r) ''Retry-After'' 60) of
                                   Inl b \<Rightarrow> Inl (Builtin b)
                                 | Inr ra \<Rightarrow> Inl (Primis (PrimisRateLimitError error_msg ra)))
                           else Inl (Primis (PrimisAPIError error_msg error_code
                                               (resp_status_code r)))))
               else Inr data))"

text \<open>\<open>HttpClient.request\<close>: one call of \<^verbatim>\<open>session.request\<close>, then the translation.\<close>

definition request ::
  "http_client \<Rightarrow> string \<Rightarrow> string \<Rightarrow> json option \<Rightarrow> json option \<Rightarrow> world
     \<Rightarrow> (exn + json) \<times> world" where
  "request c method path body params w =
     (let url = base_url c @ path;
          (out, w') = session_request
                        \<lparr>req_method = method, req_url = url, req_json = body,
                         req_params = params, req_timeout = timeout c,
                         req_headers = session_headers c\<rparr> w
      in (translate path out, w'))"

definition get :: "http_client \<Rightarrow> string \<Rightarrow> json option \<Rightarrow> world \<Rightarrow> (exn + json) \<times> world" where
  "get c path params w = request c ''GET'' path None params w"

section \<open>client.py: \<open>ImagesResource\<close>\<close>

text \<open>\<^verbatim>\<open>response.get("job", response)\<close>.\<close>

definition job_of :: "json \<Rightarrow> exn + json" where
  "job_of resp = (case dict_get resp ''job'' resp of Inl b \<Rightarrow> Inl (Builtin b) | Inr j \<Rightarrow> Inr j)"

definition get_job :: "http_client \<Rightarrow> string \<Rightarrow> world \<Rightarrow> (exn + json) \<times> world" where
  "get_job c job_id w =
     (case get c (''/api/batch/jobs/'' @ job_id) None w of
        (Inl e, w') \<Rightarrow> (Inl e, w')
      | (Inr resp, w') \<Rightarrow> (job_of resp, w'))"

definition default_poll_interval :: real where
  "default_poll_interval = 2"

definition default_max_wait :: real where
  "default_max_wait = 300"

text \<open>
  The body of the \<^verbatim>\<open>while\<close> loop of \<open>wait_for_job\<close> (lines 300 to 305). It ends in one
  of three ways: the function returns the job, an exception leaves the function, or the
  loop goes round again.
\<close>

datatype flow = Return json | Raise exn | Again

definition terminal :: "json \<Rightarrow> bool" where
  "terminal st = (st = JStr ''completed'' \<or> st = JStr ''failed'')"

definition loop_body :: "http_client \<Rightarrow> string \<Rightarrow> real \<Rightarrow> world \<Rightarrow> flow \<times> world" where
  "loop_body c job_id poll_interval w =
     (case get_job c job_id w of
        (Inl e, w1) \<Rightarrow> (Raise e, w1)
      | (Inr job, w1) \<Rightarrow>
          (case subscript job ''status'' of
             Inl b \<Rightarrow> (Raise (Builtin b), w1)
           | Inr st \<Rightarrow>
               if terminal st then (Return job, w1)
               else (case time_sleep poll_interval w1 of
                       (Inl e, w2) \<Rightarrow> (Raise e, w2)
                     | (Inr u, w2) \<Rightarrow> (Again, w2))))"

definition timed_out :: "string \<Rightarrow> real \<Rightarrow> world \<Rightarrow> exn" where
  "timed_out job_id max_wait w =
     Primis (PrimisTimeoutError
       (JStr (''Job '' @ job_id @ '' timed out after '' @ str_float w max_wait @ ''s'')))"

text \<open>
  The loop (lines 299 to 307). It need not end: a clock that stands still and a job that
  stays pending keep it running, and then there is no result.
\<close>

partial_function (option) wait_loop ::
  "http_client \<Rightarrow> string \<Rightarrow> real \<Rightarrow> real \<Rightarrow> real \<Rightarrow> world \<Rightarrow> ((exn + json) \<times> world) option" where
  "wait_loop c job_id poll_interval max_wait start_time w =
     (case time_time w of
        (now, w1) \<Rightarrow>
          if now - start_time < max_wait then
            (case loop_body c job_id poll_interval w1 of
               (Return job, w2) \<Rightarrow> Some (Inr job, w2)
             | (Raise e, w2) \<Rightarrow> Some (Inl e, w2)
             | (Again, w2) \<Rightarrow> wait_loop c job_id poll_interval max_wait start_time w2)
          else Some (Inl (timed_out job_id max_wait w1), w1))"

definition wait_for_job ::
  "http_client \<Rightarrow> string \<Rightarrow> real \<Rightarrow> real \<Rightarrow> world \<Rightarrow> ((exn + json) \<times> world) option" where
  "wait_for_job c job_id poll_interval max_wait w =
     (case time_time w of
        (start_time, w0) \<Rightarrow> wait_loop c job_id poll_interval max_wait start_time w0)"

section \<open>client.py: \<open>Primis\<close>\<close>

datatype resource =
    FilesResource http_client
  | ImagesResource http_client
  | TextResource http_client
  | InstancesResource http_client
  | ApiKeysResource http_client

record primis =
  client :: http_client
  files :: resource
  images :: resource
  text_ns :: resource
  instances :: resource
  api_keys :: resource

definition Primis_init ::
  "string \<Rightarrow> string \<Rightarrow> int \<Rightarrow> world \<Rightarrow> (exn + primis) \<times> world" where
  "Primis_init key url tmo w =
     (case HttpClient_init key url tmo w of
        (Inl e, w') \<Rightarrow> (Inl e, w')
      | (Inr c, w') \<Rightarrow>
          (Inr \<lparr>client = c, files = FilesResource c, images = ImagesResource c,
                text_ns = TextResource c, instances = InstancesResource c,
                api_keys = ApiKeysResource c\<rparr>, w'))"

text \<open>The property \<^verbatim>\<open>Primis.base_url\<close>.\<close>

definition Primis_base_url :: "primis \<Rightarrow> string" where
  "Primis_base_url p = base_url (client p)"

section \<open>Notions for stating the properties\<close>

text \<open>The value \<^verbatim>\<open>d.get(key, default)\<close> has on a dict with the entries \<open>kvs\<close>.\<close>

definition field_or :: "(string \<times> json) list \<Rightarrow> string \<Rightarrow> json \<Rightarrow> json" where
  "field_or kvs k d = (case map_of kvs k of None \<Rightarrow> d | Some v \<Rightarrow> v)"

text \<open>The request that \<open>request\<close> hands to the session.\<close>

definition the_request ::
  "http_client \<Rightarrow> string \<Rightarrow> string \<Rightarrow> json option \<Rightarrow> json option \<Rightarrow> http_request" where
  "the_request c method path body params =
     \<lparr>req_method = method, req_url = base_url c @ path, req_json = body,
      req_params = params, req_timeout = timeout c, req_headers = session_headers c\<rparr>"

text \<open>The request of one status fetch, and what \<open>get_job\<close> makes of its outcome.\<close>

definition job_path :: "string \<Rightarrow> string" where
  "job_path job_id = ''/api/batch/jobs/'' @ job_id"

definition job_request :: "http_client \<Rightarrow> string \<Rightarrow> http_request" where
  "job_request c job_id = the_request c ''GET'' (job_path job_id) None None"

definition job_reply :: "string \<Rightarrow> transport_result \<Rightarrow> exn + json" where
  "job_reply job_id out =
     (case translate (job_path job_id) out of Inl e \<Rightarrow> Inl e | Inr resp \<Rightarrow> job_of resp)"

text \<open>
  The world at the head of the loop after \<open>n\<close> rounds that each went round again;
  \<open>None\<close> when the loop ended within them.
\<close>

fun rounds ::
  "nat \<Rightarrow> http_client \<Rightarrow> string \<Rightarrow> real \<Rightarrow> real \<Rightarrow> real \<Rightarrow> world \<Rightarrow> world option" where
  "rounds 0 c job_id poll_interval max_wait start_time w = Some w"
| "rounds (Suc n) c job_id poll_interval max_wait start_time w =
     (case time_time w of
        (now, w1) \<Rightarrow>
          if now - start_time < max_wait then
            (case loop_body c job_id poll_interval w1 of
               (Again, w2) \<Rightarrow> rounds n c job_id poll_interval max_wait start_time w2
             | (Return job, w2) \<Rightarrow> None
             | (Raise e, w2) \<Rightarrow> None)
          else None)"

section \<open>Concrete scenarios\<close>

text \<open>The client that \<open>HttpClient_init\<close> builds from the key \<open>prmis_demo\<close> and the defaults.\<close>

definition demo_client :: http_client where
  "demo_client =
     \<lparr>api_key = ''prmis_demo'', base_url = ''http://localhost:3001'', timeout = 30,
      session_headers = [(''Authorization'', ''Bearer prmis_demo''),
                         (''Content-Type'', ''application/json'')]\<rparr>"

definition demo_session :: primis where
  "demo_session =
     \<lparr>client = demo_client, files = FilesResource demo_client,
      images = ImagesResource demo_client, text_ns = TextResource demo_client,
      instances = InstancesResource demo_client, api_keys = ApiKeysResource demo_client\<rparr>"

text \<open>How Python prints a float of whole value, which is all the scenarios need.\<close>

definition whole_seconds :: "real \<Rightarrow> string" where
  "whole_seconds x = str_int \<lfloor>x\<rfloor> @ ''.0''"

text \<open>A world in which nothing has happened yet, with a given clock and server.\<close>

definition scene :: "(nat \<Rightarrow> real) \<Rightarrow> (nat \<Rightarrow> http_request \<Rightarrow> transport_result) \<Rightarrow> world" where
  "scene clk srv =
     \<lparr>readings = clk, reads = 0, server = srv, sent = 0, trace = [], str_float = whole_seconds\<rparr>"

text \<open>
  Clocks: one that advances a millisecond from reading to reading, and one that reads 0
  at the start and at the first check and \<open>d\<close> seconds more at each later check (the
  time a sleep of \<open>d\<close> seconds takes).
\<close>

definition ticking :: "nat \<Rightarrow> real" where
  "ticking n = real n / 1000"

definition paced :: "real \<Rightarrow> nat \<Rightarrow> real" where
  "paced d n = d * real (n - 1)"

text \<open>Replies of the server.\<close>

definition job_record :: "string \<Rightarrow> json" where
  "job_record st = JObj [(''id'', JStr ''job1''), (''status'', JStr st)]"

definition reply :: "int \<Rightarrow> (string \<times> string) list \<Rightarrow> json option \<Rightarrow> transport_result" where
  "reply st hs body = Responded \<lparr>resp_status_code = st, resp_headers = hs, resp_json = body\<rparr>"

definition job_response :: "string \<Rightarrow> transport_result" where
  "job_response st = reply 200 [] (Some (JObj [(''job'', job_record st)]))"

definition always :: "transport_result \<Rightarrow> nat \<Rightarrow> http_request \<Rightarrow> transport_result" where
  "always out n rq = out"

definition running_twice :: "nat \<Rightarrow> http_request \<Rightarrow> transport_result" where
  "running_twice n rq = (if n < 2 then job_response ''running'' else job_response ''completed'')"

definition running_then_unauthorized :: "nat \<Rightarrow> http_request \<Rightarrow> transport_result" where
  "running_then_unauthorized n rq =
     (if n < 1 then job_response ''running''
      else reply 401 [] (Some (JObj [(''error'', JStr ''Invalid API key'')])))"

section \<open>One request, one status fetch, one round of the loop\<close>

lemma request_eq:
  "request c method path body params w =
     (translate path (server w (sent w) (the_request c method path body params)),
      w\<lparr>sent := Suc (sent w), trace := trace w @ [Sent (the_request c method path body params)]\<rparr>)"
  by (simp add: request_def session_request_def the_request_def Let_def)

lemma get_job_eq:
  "get_job c job_id w =
     (job_reply job_id (server w (sent w) (job_request c job_id)),
      w\<lparr>sent := Suc (sent w), trace := trace w @ [Sent (job_request c job_id)]\<rparr>)"
  by (simp add: get_job_def get_def request_eq job_reply_def job_request_def job_path_def
           split: sum.splits)

lemma loop_body_raise:
  "job_reply job_id (server w (sent w) (job_request c job_id)) = Inl e \<Longrightarrow>
   loop_body c job_id poll_interval w =
     (Raise e, w\<lparr>sent := Suc (sent w), trace := trace w @ [Sent (job_request c job_id)]\<rparr>)"
  by (simp add: loop_body_def get_job_eq)

lemma loop_body_return:
  "job_reply job_id (server w (sent w) (job_request c job_id)) = Inr job \<Longrightarrow>
   subscript job ''status'' = Inr st \<Longrightarrow> terminal st \<Longrightarrow>
   loop_body c job_id poll_interval w =
     (Return job, w\<lparr>sent := Suc (sent w), trace := trace w @ [Sent (job_request c job_id)]\<rparr>)"
  by (simp add: loop_body_def get_job_eq)

lemma loop_body_again:
  "job_reply job_id (server w (sent w) (job_request c job_id)) = Inr job \<Longrightarrow>
   subscript job ''status'' = Inr st \<Longrightarrow> \<not> terminal st \<Longrightarrow> 0 \<le> poll_interval \<Longrightarrow>
   loop_body c job_id poll_interval w =
     (Again, w\<lparr>sent := Suc (sent w),
               trace := trace w @ [Sent (job_request c job_id), Slept poll_interval]\<rparr>)"
  by (simp add: loop_body_def get_job_eq time_sleep_def)

text \<open>The four ways one pass through the \<^verbatim>\<open>while\<close> statement can go.\<close>

lemma wait_loop_timeout:
  "\<not> readings w (reads w) - start_time < max_wait \<Longrightarrow>
   wait_loop c job_id poll_interval max_wait start_time w =
     Some (Inl (timed_out job_id max_wait (w\<lparr>reads := Suc (reads w)\<rparr>)),
           w\<lparr>reads := Suc (reads w)\<rparr>)"
  by (subst wait_loop.simps) (simp add: time_time_def)

lemma wait_loop_return:
  "readings w (reads w) - start_time < max_wait \<Longrightarrow>
   loop_body c job_id poll_interval (w\<lparr>reads := Suc (reads w)\<rparr>) = (Return job, w') \<Longrightarrow>
   wait_loop c job_id poll_interval max_wait start_time w = Some (Inr job, w')"
  by (subst wait_loop.simps) (simp add: time_time_def)

lemma wait_loop_raise:
  "readings w (reads w) - start_time < max_wait \<Longrightarrow>
   loop_body c job_id poll_interval (w\<lparr>reads := Suc (reads w)\<rparr>) = (Raise e, w') \<Longrightarrow>
   wait_loop c job_id poll_interval max_wait start_time w = Some (Inl e, w')"
  by (subst wait_loop.simps) (simp add: time_time_def)

lemma wait_loop_again:
  "readings w (reads w) - start_time < max_wait \<Longrightarrow>
   loop_body c job_id poll_interval (w\<lparr>reads := Suc (reads w)\<rparr>) = (Again, w') \<Longrightarrow>
   wait_loop c job_id poll_interval max_wait start_time w =
   wait_loop c job_id poll_interval max_wait start_time w'"
  by (subst wait_loop.simps) (simp add: time_time_def)

text \<open>Rounds that went round again leave the loop where it would be if started there.\<close>

lemma rounds_wait_loop:
  "rounds n c job_id poll_interval max_wait start_time w = Some w' \<Longrightarrow>
   wait_loop c job_id poll_interval max_wait start_time w =
   wait_loop c job_id poll_interval max_wait start_time w'"
proof (induction n arbitrary: w)
  case 0
  then show ?case by simp
next
  case (Suc n)
  from Suc.prems obtain w2 where
    g: "readings w (reads w) - start_time < max_wait" and
    b: "loop_body c job_id poll_interval (w\<lparr>reads := Suc (reads w)\<rparr>) = (Again, w2)" and
    r: "rounds n c job_id poll_interval max_wait start_time w2 = Some w'"
    by (auto simp: time_time_def split: if_splits prod.splits flow.splits)
  from wait_loop_again [OF g b] Suc.IH [OF r] show ?case by simp
qed

text \<open>The scenarios, evaluated.\<close>

lemmas scene_simps =
  scene_def ticking_def paced_def always_def running_twice_def running_then_unauthorized_def

lemma job_reply_job_response:
  "job_reply job_id (job_response st) = Inr (job_record st)"
  by (simp add: job_reply_def translate_def job_response_def reply_def ok_def job_of_def
        job_record_def)

lemma status_job_record: "subscript (job_record st) ''status'' = Inr (JStr st)"
  by (simp add: job_record_def)

lemma running_not_terminal: "\<not> terminal (JStr ''running'')"
  by (simp add: terminal_def)

section \<open>\<open>wait_for_job\<close>: polling until the job is done\<close>

text \<open>
  C1, as the code has it. Let the three deadline checks that precede the first three
  status fetches pass (at each, the clock reads less than \<open>max_wait\<close> past the start),
  let \<open>poll_interval\<close> be non-negative, and let the first two fetches report a
  non-terminal status and the third \<open>completed\<close>. Then \<open>wait_for_job\<close> returns the third
  job record; it has sent exactly three requests, has slept for \<open>poll_interval\<close> after the
  first and after the second, and has not slept after the third.
\<close>

theorem wait_for_job_three_polls:
  assumes g1: "readings w (reads w + 1) - readings w (reads w) < max_wait"
    and g2: "readings w (reads w + 2) - readings w (reads w) < max_wait"
    and g3: "readings w (reads w + 3) - readings w (reads w) < max_wait"
    and pi: "0 \<le> poll_interval"
    and f1: "job_reply job_id (server w (sent w) (job_request c job_id)) = Inr j1"
    and s1: "subscript j1 ''status'' = Inr st1" "\<not> terminal st1"
    and f2: "job_reply job_id (server w (sent w + 1) (job_request c job_id)) = Inr j2"
    and s2: "subscript j2 ''status'' = Inr st2" "\<not> terminal st2"
    and f3: "job_reply job_id (server w (sent w + 2) (job_request c job_id)) = Inr j3"
    and s3: "subscript j3 ''status'' = Inr (JStr ''completed'')"
  shows "wait_for_job c job_id poll_interval max_wait w =
           Some (Inr j3,
                 w\<lparr>reads := reads w + 4, sent := sent w + 3,
                   trace := trace w @ [Sent (job_request c job_id), Slept poll_interval,
                                       Sent (job_request c job_id), Slept poll_interval,
                                       Sent (job_request c job_id)]\<rparr>)"
proof -
  let ?rq = "job_request c job_id"
  let ?w0 = "w\<lparr>reads := Suc (reads w)\<rparr>"
  let ?w1 = "w\<lparr>reads := reads w + 2, sent := sent w + 1,
               trace := trace w @ [Sent ?rq, Slept poll_interval]\<rparr>"
  let ?w2 = "w\<lparr>reads := reads w + 3, sent := sent w + 2,
               trace := trace w @ [Sent ?rq, Slept poll_interval, Sent ?rq, Slept poll_interval]\<rparr>"
  let ?L = "wait_loop c job_id poll_interval max_wait (readings w (reads w))"
  have first: "?L ?w0 = ?L ?w1"
    using g1 f1 s1 pi
    by (subst wait_loop_again [where w' = ?w1]) (simp_all add: loop_body_again)
  have second: "?L ?w1 = ?L ?w2"
    using g2 f2 s2 pi
    by (subst wait_loop_again [where w' = ?w2]) (simp_all add: loop_body_again)
  have fin: "terminal (JStr ''completed'')"
    by (simp add: terminal_def)
  have third: "?L ?w2 = Some (Inr j3, w\<lparr>reads := reads w + 4, sent := sent w + 3,
                   trace := trace w @ [Sent ?rq, Slept poll_interval,
                                       Sent ?rq, Slept poll_interval, Sent ?rq]\<rparr>)"
    using g3 f3 s3 fin
    by (subst wait_loop_return [where job = j3])
       (simp_all add: loop_body_return [where st = "JStr ''completed''"])
  have start: "wait_for_job c job_id poll_interval max_wait w = ?L ?w0"
    by (simp add: wait_for_job_def time_time_def)
  show ?thesis
    by (simp only: start first second third)
qed

text \<open>
  The defaults: a poll every 2 seconds, at most 300 seconds, a job that runs for two polls.
\<close>

theorem wait_for_job_three_polls_witness:
  "paced 2 3 - paced 2 0 < 300 \<and> (0::real) \<le> 2 \<and>
   job_reply ''job1'' (running_twice 1 (job_request demo_client ''job1'')) =
     Inr (job_record ''running'') \<and>
   wait_for_job demo_client ''job1'' 2 300 (scene (paced 2) running_twice) =
     Some (Inr (job_record ''completed''),
           (scene (paced 2) running_twice)
             \<lparr>reads := 4, sent := 3,
              trace := [Sent (job_request demo_client ''job1''), Slept 2,
                        Sent (job_request demo_client ''job1''), Slept 2,
                        Sent (job_request demo_client ''job1'')]\<rparr>)"
  using wait_for_job_three_polls
          [where w = "scene (paced 2) running_twice" and max_wait = 300 and poll_interval = 2
             and job_id = "''job1''" and c = demo_client
             and ?j1.0 = "job_record ''running''" and ?st1.0 = "JStr ''running''"
             and ?j2.0 = "job_record ''running''" and ?st2.0 = "JStr ''running''"
             and ?j3.0 = "job_record ''completed''"]
  by (simp add: scene_simps job_reply_job_response status_job_record running_not_terminal)

text \<open>
  As C1 is written it says nothing of the deadline. With a poll every 200 seconds and
  the default \<open>max_wait\<close> of 300, the same job is fetched twice; the third check finds
  400 seconds gone and the call ends in the loop's \<^verbatim>\<open>PrimisTimeoutError\<close>.
\<close>

theorem wait_for_job_three_polls_deadline:
  "job_reply ''job1'' (running_twice 0 (job_request demo_client ''job1'')) =
     Inr (job_record ''running'') \<and>
   job_reply ''job1'' (running_twice 1 (job_request demo_client ''job1'')) =
     Inr (job_record ''running'') \<and>
   job_reply ''job1'' (running_twice 2 (job_request demo_client ''job1'')) =
     Inr (job_record ''completed'') \<and>
   map_option fst (wait_for_job demo_client ''job1'' 200 300 (scene (paced 200) running_twice)) =
     Some (Inl (Primis (PrimisTimeoutError (JStr ''Job job1 timed out after 300.0s'')))) \<and>
   map_option (trace \<circ> snd)
       (wait_for_job demo_client ''job1'' 200 300 (scene (paced 200) running_twice)) =
     Some [Sent (job_request demo_client ''job1''), Slept 200,
           Sent (job_request demo_client ''job1''), Slept 200]"
proof -
  let ?w = "scene (paced 200) running_twice"
  let ?rq = "job_request demo_client ''job1''"
  let ?L = "wait_loop demo_client ''job1'' 200 300 0"
  let ?w1 = "?w\<lparr>reads := 2, sent := 1, trace := [Sent ?rq, Slept 200]\<rparr>"
  let ?w2 = "?w\<lparr>reads := 3, sent := 2, trace := [Sent ?rq, Slept 200, Sent ?rq, Slept 200]\<rparr>"
  have start: "wait_for_job demo_client ''job1'' 200 300 ?w = ?L (?w\<lparr>reads := 1\<rparr>)"
    by (simp add: wait_for_job_def time_time_def scene_simps)
  have first: "?L (?w\<lparr>reads := 1\<rparr>) = ?L ?w1"
    by (rule wait_loop_again)
       (simp_all add: scene_simps job_reply_job_response status_job_record running_not_terminal
          loop_body_again [where job = "job_record ''running''" and st = "JStr ''running''"])
  have second: "?L ?w1 = ?L ?w2"
    by (rule wait_loop_again)
       (simp_all add: scene_simps job_reply_job_response status_job_record running_not_terminal
          loop_body_again [where job = "job_record ''running''" and st = "JStr ''running''"])
  have third: "?L ?w2 = Some (Inl (timed_out ''job1'' 300 (?w2\<lparr>reads := 4\<rparr>)), ?w2\<lparr>reads := 4\<rparr>)"
    by (subst wait_loop_timeout) (simp_all add: scene_simps)
  have msg: "timed_out ''job1'' 300 (?w2\<lparr>reads := 4\<rparr>) =
           Primis (PrimisTimeoutError (JStr ''Job job1 timed out after 300.0s''))"
    by (simp add: timed_out_def scene_def whole_seconds_def str_int_def digits.simps)
  have run: "wait_for_job demo_client ''job1'' 200 300 ?w =
      Some (Inl (Primis (PrimisTimeoutError (JStr ''Job job1 timed out after 300.0s''))),
            ?w2\<lparr>reads := 4\<rparr>)"
    by (simp only: start first second third msg)
  show ?thesis
    by (simp add: run) (simp add: running_twice_def job_reply_job_response)
qed

section \<open>\<open>wait_for_job\<close>: the deadline\<close>

text \<open>Every round of the loop begins with a status fetch, and the trace only grows.\<close>

lemma loop_body_trace:
  "loop_body c job_id poll_interval w = (fl, w') \<Longrightarrow>
   \<exists>evs. trace w' = trace w @ Sent (job_request c job_id) # evs"
  by (auto simp: loop_body_def get_job_eq time_sleep_def split: sum.splits if_splits)

lemma wait_loop_trace:
  assumes "wait_loop c job_id poll_interval max_wait start_time w = Some y"
  shows "\<exists>evs. trace (snd y) = trace w @ evs"
  using assms
proof (induction c job_id poll_interval max_wait start_time w y rule: wait_loop.raw_induct)
  case (1 wl c job_id poll_interval max_wait start_time w y)
  show ?case
  proof (cases "readings w (reads w) - start_time < max_wait")
    case False
    with "1" show ?thesis by (auto simp: time_time_def)
  next
    case True
    obtain fl w2 where b: "loop_body c job_id poll_interval (w\<lparr>reads := Suc (reads w)\<rparr>) = (fl, w2)"
      by (cases "loop_body c job_id poll_interval (w\<lparr>reads := Suc (reads w)\<rparr>)")
    from loop_body_trace [OF b] obtain evs where t: "trace w2 = trace w @ Sent (job_request c job_id) # evs"
      by auto
    show ?thesis
    proof (cases fl)
      case (Return job)
      with "1" True b t show ?thesis by (auto simp: time_time_def)
    next
      case (Raise e)
      with "1" True b t show ?thesis by (auto simp: time_time_def)
    next
      case Again
      with "1"(2) True b have u: "wl c job_id poll_interval max_wait start_time w2 = Some y"
        by (simp add: time_time_def)
      from Again b wait_loop_again [OF True, of c job_id poll_interval w2] "1"(3)
      have v: "wait_loop c job_id poll_interval max_wait start_time w2 = Some y"
        by simp
      from "1"(1) [OF u v] t show ?thesis by auto
    qed
  qed
qed (fact assms)

lemma wait_loop_fetches:
  assumes g: "readings w (reads w) - start_time < max_wait"
    and r: "wait_loop c job_id poll_interval max_wait start_time w = Some (res, w')"
  shows "\<exists>evs. trace w' = trace w @ Sent (job_request c job_id) # evs"
proof -
  obtain fl w2 where b: "loop_body c job_id poll_interval (w\<lparr>reads := Suc (reads w)\<rparr>) = (fl, w2)"
    by (cases "loop_body c job_id poll_interval (w\<lparr>reads := Suc (reads w)\<rparr>)")
  from loop_body_trace [OF b] obtain evs where t: "trace w2 = trace w @ Sent (job_request c job_id) # evs"
    by auto
  show ?thesis
  proof (cases fl)
    case (Return job)
    with wait_loop_return [OF g, of c job_id poll_interval job w2] b r t show ?thesis by auto
  next
    case (Raise e)
    with wait_loop_raise [OF g, of c job_id poll_interval e w2] b r t show ?thesis by auto
  next
    case Again
    with wait_loop_again [OF g, of c job_id poll_interval w2] b r
    have "wait_loop c job_id poll_interval max_wait start_time w2 = Some (res, w')" by simp
    from wait_loop_trace [OF this] t show ?thesis by auto
  qed
qed

text \<open>
  C2, as the code has it. Let the deadline check before the first fetch pass (the clock
  reads less than \<open>max_wait\<close> past the start, which needs a positive \<open>max_wait\<close> on a
  clock that does not run backwards). Then however the call ends, by the loop's
  \<^verbatim>\<open>PrimisTimeoutError\<close> or otherwise, a status fetch has been made first. In particular,
  if that fetch reports a non-terminal status, \<open>max_wait\<close> is below a non-negative
  \<open>poll_interval\<close>, and the clock at the second check reads at least \<open>poll_interval\<close> past
  the start (the sleep has taken its time), then the call makes exactly one fetch, sleeps
  once, and raises \<^verbatim>\<open>PrimisTimeoutError\<close> with the message
  \<^verbatim>\<open>Job <job_id> timed out after <max_wait>s\<close>.
\<close>

theorem wait_for_job_fetches_before_timeout:
  assumes g: "readings w (reads w + 1) - readings w (reads w) < max_wait"
  shows "(\<forall>res w'. wait_for_job c job_id poll_interval max_wait w = Some (res, w') \<longrightarrow>
            (\<exists>evs. trace w' = trace w @ Sent (job_request c job_id) # evs)) \<and>
         (\<forall>job st. job_reply job_id (server w (sent w) (job_request c job_id)) = Inr job \<and>
              subscript job ''status'' = Inr st \<and> \<not> terminal st \<and>
              0 \<le> poll_interval \<and> max_wait < poll_interval \<and>
              poll_interval \<le> readings w (reads w + 2) - readings w (reads w) \<longrightarrow>
            wait_for_job c job_id poll_interval max_wait w =
              Some (Inl (Primis (PrimisTimeoutError
                      (JStr (''Job '' @ job_id @ '' timed out after '' @ str_float w max_wait @ ''s'')))),
                    w\<lparr>reads := reads w + 3, sent := sent w + 1,
                      trace := trace w @ [Sent (job_request c job_id), Slept poll_interval]\<rparr>))"
proof (intro conjI allI impI)
  fix res w'
  assume "wait_for_job c job_id poll_interval max_wait w = Some (res, w')"
  then have r: "wait_loop c job_id poll_interval max_wait (readings w (reads w))
                  (w\<lparr>reads := Suc (reads w)\<rparr>) = Some (res, w')"
    by (simp add: wait_for_job_def time_time_def)
  from g have "readings (w\<lparr>reads := Suc (reads w)\<rparr>) (reads (w\<lparr>reads := Suc (reads w)\<rparr>))
                 - readings w (reads w) < max_wait" by simp
  from wait_loop_fetches [OF this r]
  show "\<exists>evs. trace w' = trace w @ Sent (job_request c job_id) # evs" by simp
next
  fix job st
  assume h: "job_reply job_id (server w (sent w) (job_request c job_id)) = Inr job \<and>
              subscript job ''status'' = Inr st \<and> \<not> terminal st \<and>
              0 \<le> poll_interval \<and> max_wait < poll_interval \<and>
              poll_interval \<le> readings w (reads w + 2) - readings w (reads w)"
  let ?rq = "job_request c job_id"
  let ?w0 = "w\<lparr>reads := Suc (reads w)\<rparr>"
  let ?w1 = "w\<lparr>reads := reads w + 2, sent := sent w + 1,
               trace := trace w @ [Sent ?rq, Slept poll_interval]\<rparr>"
  let ?L = "wait_loop c job_id poll_interval max_wait (readings w (reads w))"
  have start: "wait_for_job c job_id poll_interval max_wait w = ?L ?w0"
    by (simp add: wait_for_job_def time_time_def)
  have first: "?L ?w0 = ?L ?w1"
    using g h
    by (subst wait_loop_again [where w' = ?w1]) (simp_all add: loop_body_again)
  have late: "\<not> readings ?w1 (reads ?w1) - readings w (reads w) < max_wait"
    using h by simp
  have second: "?L ?w1 = Some (Inl (timed_out job_id max_wait (?w1\<lparr>reads := Suc (reads ?w1)\<rparr>)),
                               ?w1\<lparr>reads := Suc (reads ?w1)\<rparr>)"
    by (rule wait_loop_timeout [OF late])
  show "wait_for_job c job_id poll_interval max_wait w =
              Some (Inl (Primis (PrimisTimeoutError
                      (JStr (''Job '' @ job_id @ '' timed out after '' @ str_float w max_wait @ ''s'')))),
                    w\<lparr>reads := reads w + 3, sent := sent w + 1,
                      trace := trace w @ [Sent (job_request c job_id), Slept poll_interval]\<rparr>)"
    by (simp only: start first second) (simp add: timed_out_def)
qed

text \<open>A job that keeps running, polled every 2 seconds for at most 1 second.\<close>

theorem wait_for_job_fetches_before_timeout_witness:
  "paced 2 1 - paced 2 0 < 1 \<and> (1::real) < 2 \<and> 2 \<le> paced 2 2 - paced 2 0 \<and>
   wait_for_job demo_client ''job1'' 2 1 (scene (paced 2) (always (job_response ''running''))) =
     Some (Inl (Primis (PrimisTimeoutError (JStr ''Job job1 timed out after 1.0s''))),
           (scene (paced 2) (always (job_response ''running'')))
             \<lparr>reads := 3, sent := 1,
              trace := [Sent (job_request demo_client ''job1''), Slept 2]\<rparr>)"
proof -
  let ?w = "scene (paced 2) (always (job_response ''running''))"
  have g: "readings ?w (reads ?w + 1) - readings ?w (reads ?w) < 1"
    by (simp add: scene_simps)
  from wait_for_job_fetches_before_timeout
         [OF g, of demo_client "''job1''" 2, THEN conjunct2, rule_format,
          where job = "job_record ''running''" and st = "JStr ''running''"]
  show ?thesis
    by (simp add: scene_simps job_reply_job_response status_job_record running_not_terminal
          whole_seconds_def str_int_def digits.simps)
qed

text \<open>
  As C2 is written, every call makes a fetch before it times out. The loop checks the
  deadline before the first fetch as well: with \<open>max_wait = 0\<close> the check fails at once
  and the call raises \<^verbatim>\<open>PrimisTimeoutError\<close> with no request sent.
\<close>

theorem wait_for_job_no_fetch_at_zero_max_wait:
  "map_option fst
       (wait_for_job demo_client ''job1'' 2 0 (scene ticking (always (job_response ''running'')))) =
     Some (Inl (Primis (PrimisTimeoutError (JStr ''Job job1 timed out after 0.0s'')))) \<and>
   map_option (trace \<circ> snd)
       (wait_for_job demo_client ''job1'' 2 0 (scene ticking (always (job_response ''running'')))) =
     Some [] \<and>
   map_option (sent \<circ> snd)
       (wait_for_job demo_client ''job1'' 2 0 (scene ticking (always (job_response ''running'')))) =
     Some 0"
proof -
  let ?w = "scene ticking (always (job_response ''running''))"
  have "wait_for_job demo_client ''job1'' 2 0 ?w =
          Some (Inl (timed_out ''job1'' 0 (?w\<lparr>reads := Suc (Suc 0)\<rparr>)),
                ?w\<lparr>reads := Suc (Suc 0)\<rparr>)"
    by (simp add: wait_for_job_def time_time_def wait_loop_timeout scene_simps)
  then show ?thesis
    by (simp add: timed_out_def scene_def whole_seconds_def str_int_def digits.simps)
qed

section \<open>\<open>wait_for_job\<close>: a failed job\<close>

text \<open>
  C8, as the code has it. Let the deadline check before the first fetch pass, and let
  that fetch report the status \<open>failed\<close>. Then \<open>wait_for_job\<close> returns that job record
  and raises nothing; it has sent exactly one request and has not slept.
\<close>

theorem wait_for_job_failed_job:
  assumes g: "readings w (reads w + 1) - readings w (reads w) < max_wait"
    and f: "job_reply job_id (server w (sent w) (job_request c job_id)) = Inr job"
    and s: "subscript job ''status'' = Inr (JStr ''failed'')"
  shows "wait_for_job c job_id poll_interval max_wait w =
           Some (Inr job, w\<lparr>reads := reads w + 2, sent := sent w + 1,
                            trace := trace w @ [Sent (job_request c job_id)]\<rparr>)"
proof -
  have t: "terminal (JStr ''failed'')" by (simp add: terminal_def)
  have start: "wait_for_job c job_id poll_interval max_wait w =
        wait_loop c job_id poll_interval max_wait (readings w (reads w)) (w\<lparr>reads := Suc (reads w)\<rparr>)"
    by (simp add: wait_for_job_def time_time_def)
  show ?thesis
    unfolding start using g f s t
    by (subst wait_loop_return [where job = job])
       (simp_all add: loop_body_return [where st = "JStr ''failed''"])
qed

text \<open>The defaults, and a job that has failed by the first poll.\<close>

theorem wait_for_job_failed_job_witness:
  "ticking 1 - ticking 0 < 300 \<and>
   wait_for_job demo_client ''job1'' 2 300 (scene ticking (always (job_response ''failed''))) =
     Some (Inr (job_record ''failed''),
           (scene ticking (always (job_response ''failed'')))
             \<lparr>reads := 2, sent := 1, trace := [Sent (job_request demo_client ''job1'')]\<rparr>)"
  using wait_for_job_failed_job
          [where w = "scene ticking (always (job_response ''failed''))" and max_wait = 300
             and poll_interval = 2 and c = demo_client and job_id = "''job1''"
             and job = "job_record ''failed''"]
  by (simp add: scene_simps job_reply_job_response status_job_record)

text \<open>
  As C8 is written it holds of every call. With \<open>max_wait = 0\<close> the job that would
  report \<open>failed\<close> is never fetched, and the call raises \<^verbatim>\<open>PrimisTimeoutError\<close>.
\<close>

theorem wait_for_job_failed_job_zero_max_wait:
  "job_reply ''job1'' (always (job_response ''failed'') 0 (job_request demo_client ''job1'')) =
     Inr (job_record ''failed'') \<and>
   map_option fst
       (wait_for_job demo_client ''job1'' 2 0 (scene ticking (always (job_response ''failed'')))) =
     Some (Inl (Primis (PrimisTimeoutError (JStr ''Job job1 timed out after 0.0s'')))) \<and>
   map_option (trace \<circ> snd)
       (wait_for_job demo_client ''job1'' 2 0 (scene ticking (always (job_response ''failed'')))) =
     Some []"
proof -
  let ?w = "scene ticking (always (job_response ''failed''))"
  have "wait_for_job demo_client ''job1'' 2 0 ?w =
          Some (Inl (timed_out ''job1'' 0 (?w\<lparr>reads := Suc (Suc 0)\<rparr>)),
                ?w\<lparr>reads := Suc (Suc 0)\<rparr>)"
    by (simp add: wait_for_job_def time_time_def wait_loop_timeout scene_simps)
  then show ?thesis
    by (simp add: timed_out_def scene_def whole_seconds_def str_int_def digits.simps
          job_reply_job_response always_def)
qed

section \<open>\<open>wait_for_job\<close>: a fetch that raises\<close>

text \<open>
  C10. Take any execution of \<open>wait_for_job\<close> in which a status fetch raises: the loop
  has gone round \<open>n\<close> times, the next deadline check passes, and \<open>get_job\<close> raises \<open>e\<close>
  (a typed error or any other exception). Then \<open>wait_for_job\<close> ends there and raises
  \<open>e\<close>: the final world is the one that \<open>get_job\<close> left, in which the request of the
  failing fetch is the last event, sent once; no fetch and no sleep follows it.
\<close>

theorem wait_for_job_error_propagates:
  assumes r: "rounds n c job_id poll_interval max_wait (readings w (reads w))
                (w\<lparr>reads := Suc (reads w)\<rparr>) = Some wn"
    and g: "readings wn (reads wn) - readings w (reads w) < max_wait"
    and f: "get_job c job_id (wn\<lparr>reads := Suc (reads wn)\<rparr>) = (Inl e, w')"
  shows "wait_for_job c job_id poll_interval max_wait w = Some (Inl e, w') \<and>
         w' = wn\<lparr>reads := Suc (reads wn), sent := Suc (sent wn),
                 trace := trace wn @ [Sent (job_request c job_id)]\<rparr>"
proof -
  have start: "wait_for_job c job_id poll_interval max_wait w =
        wait_loop c job_id poll_interval max_wait (readings w (reads w)) (w\<lparr>reads := Suc (reads w)\<rparr>)"
    by (simp add: wait_for_job_def time_time_def)
  have b: "loop_body c job_id poll_interval (wn\<lparr>reads := Suc (reads wn)\<rparr>) = (Raise e, w')"
    using f by (simp add: loop_body_def)
  have "wait_loop c job_id poll_interval max_wait (readings w (reads w)) wn = Some (Inl e, w')"
    by (rule wait_loop_raise [OF g b])
  with rounds_wait_loop [OF r] start
  have "wait_for_job c job_id poll_interval max_wait w = Some (Inl e, w')" by simp
  moreover from f have "w' = wn\<lparr>reads := Suc (reads wn), sent := Suc (sent wn),
                 trace := trace wn @ [Sent (job_request c job_id)]\<rparr>"
    by (simp add: get_job_eq)
  ultimately show ?thesis by simp
qed

text \<open>A job that runs at the first poll; at the second the server answers 401.\<close>

lemma job_reply_unauthorized:
  "job_reply job_id (reply 401 [] (Some (JObj [(''error'', JStr ''Invalid API key'')]))) =
     Inl (Primis (PrimisAuthError (JStr ''Invalid API key'')))"
  by (simp add: job_reply_def translate_def reply_def ok_def)

theorem wait_for_job_error_propagates_witness:
  "typed (Primis (PrimisAuthError (JStr ''Invalid API key''))) \<and>
   wait_for_job demo_client ''job1'' 2 300 (scene (paced 2) running_then_unauthorized) =
     Some (Inl (Primis (PrimisAuthError (JStr ''Invalid API key''))),
           (scene (paced 2) running_then_unauthorized)
             \<lparr>reads := 3, sent := 2,
              trace := [Sent (job_request demo_client ''job1''), Slept 2,
                        Sent (job_request demo_client ''job1'')]\<rparr>)"
proof -
  let ?w = "scene (paced 2) running_then_unauthorized"
  let ?rq = "job_request demo_client ''job1''"
  let ?wn = "?w\<lparr>reads := 2, sent := 1, trace := [Sent ?rq, Slept 2]\<rparr>"
  let ?w' = "?w\<lparr>reads := 3, sent := 2, trace := [Sent ?rq, Slept 2, Sent ?rq]\<rparr>"
  have r: "rounds (Suc 0) demo_client ''job1'' 2 300 (readings ?w (reads ?w))
             (?w\<lparr>reads := Suc (reads ?w)\<rparr>) = Some ?wn"
    by (simp add: time_time_def scene_simps job_reply_job_response status_job_record
          running_not_terminal
          loop_body_again [where job = "job_record ''running''" and st = "JStr ''running''"])
  have g: "readings ?wn (reads ?wn) - readings ?w (reads ?w) < 300"
    by (simp add: scene_simps)
  have f: "get_job demo_client ''job1'' (?wn\<lparr>reads := Suc (reads ?wn)\<rparr>) =
             (Inl (Primis (PrimisAuthError (JStr ''Invalid API key''))), ?w')"
    by (simp add: get_job_eq scene_simps job_reply_unauthorized)
  from wait_for_job_error_propagates [OF r g f] show ?thesis
    by simp
qed

section \<open>\<open>request\<close>: from HTTP status to typed error\<close>

text \<open>The translation of an error status whose body is a JSON object.\<close>

lemma translate_error_object:
  assumes "resp_json r = Some (JObj kvs)" and "\<not> ok r"
  shows "translate path (Responded r) =
     (if resp_status_code r = 401
      then Inl (Primis (PrimisAuthError
                  (field_or kvs ''error'' (JStr (''HTTP '' @ str_int (resp_status_code r))))))
      else if resp_status_code r = 429
      then (case py_int (headers_get (resp_headers r) ''Retry-After'' 60) of
              Inl b \<Rightarrow> Inl (Builtin b)
            | Inr ra \<Rightarrow> Inl (Primis (PrimisRateLimitError
                  (field_or kvs ''error'' (JStr (''HTTP '' @ str_int (resp_status_code r)))) ra)))
      else Inl (Primis (PrimisAPIError
                  (field_or kvs ''error'' (JStr (''HTTP '' @ str_int (resp_status_code r))))
                  (field_or kvs ''code'' (JStr ''HTTP_ERROR''))
                  (resp_status_code r))))"
  using assms by (auto simp: translate_def field_or_def split: sum.splits option.splits)

lemma str_int_401: "str_int 401 = ''401''"
  by (simp add: str_int_def digits.simps)

lemma str_int_429: "str_int 429 = ''429''"
  by (simp add: str_int_def digits.simps)

text \<open>
  What \<open>int_str\<close> rejects with \<^verbatim>\<open>ValueError\<close>, as the interpreter does: a value that
  ends in the separator 0x1F, and a value of more digits than the limit.
\<close>

lemma int_str_separator: "int_str (''12'' @ [CHR 0x1F]) = Inl ValueError"
  by (simp add: int_str_def strip_def is_space_def is_digit_def digit_val_def
        int_max_str_digits_def)

lemma digit_not_space:
  "is_digit c \<Longrightarrow> \<not> is_space c \<and> c \<noteq> CHR ''-'' \<and> c \<noteq> CHR ''+''"
  by (auto simp: is_digit_def is_space_def)

lemma strip_digits:
  assumes "ds \<noteq> []" and "\<forall>c \<in> set ds. is_digit c"
  shows "strip ds = ds"
proof -
  from assms have h: "\<not> is_space (hd ds)" and l: "\<not> is_space (last ds)"
    by (simp_all add: digit_not_space)
  from assms(1) h have a: "dropWhile is_space ds = ds"
    by (cases ds) simp_all
  from assms(1) l have b: "dropWhile is_space (rev ds) = rev ds"
    by (cases ds rule: rev_cases) simp_all
  show ?thesis by (simp add: strip_def a b)
qed

lemma int_str_digit_limit:
  assumes "int_max_str_digits < length ds" and "\<forall>c \<in> set ds. is_digit c"
  shows "int_str ds = Inl ValueError"
proof -
  from assms(1) have ne: "ds \<noteq> []" by auto
  with assms(2) have hd: "is_digit (hd ds)" by simp
  from assms(2) have f: "filter is_digit ds = ds" by (simp add: filter_id_conv)
  from assms(1) ne hd digit_not_space [OF hd] show ?thesis
    by (simp add: int_str_def strip_digits [OF ne assms(2)] f Let_def)
qed

lemmas request_simps =
  request_eq scene_simps reply_def translate_def ok_def headers_get_def lower_char_def
  int_str_def strip_def is_space_def is_digit_def digit_val_def int_max_str_digits_def
  str_int_def digits.simps

text \<open>
  C3, as the code has it. Let the response have status 429 and a body that is a JSON
  object. If it has no \<^verbatim>\<open>Retry-After\<close> header, \<open>request\<close> raises
  \<^verbatim>\<open>PrimisRateLimitError\<close> with \<open>retry_after = 60\<close>. If it has the header and
  \<^verbatim>\<open>int()\<close> accepts its value, \<open>request\<close> raises \<^verbatim>\<open>PrimisRateLimitError\<close> with
  \<open>retry_after\<close> that integer. In both cases the error has status 429 and the code
  \<open>RATE_LIMIT_EXCEEDED\<close>. Nothing is stated of a response whose header \<^verbatim>\<open>int()\<close>
  rejects.
\<close>

theorem request_rate_limited:
  assumes out: "server w (sent w) (the_request c method path body params) = Responded r"
    and st: "resp_status_code r = 429"
    and js: "resp_json r = Some (JObj kvs)"
  shows "(headers_get (resp_headers r) ''Retry-After'' (60::int) = Inr 60 \<longrightarrow>
            fst (request c method path body params w) =
              Inl (Primis (PrimisRateLimitError (field_or kvs ''error'' (JStr ''HTTP 429'')) 60))) \<and>
         (\<forall>v n. headers_get (resp_headers r) ''Retry-After'' (60::int) = Inl v \<and> int_str v = Inr n \<longrightarrow>
            fst (request c method path body params w) =
              Inl (Primis (PrimisRateLimitError (field_or kvs ''error'' (JStr ''HTTP 429'')) n))) \<and>
         (\<forall>msg n. cls (PrimisRateLimitError msg n) = PrimisRateLimitError_class \<and>
            retry_after (PrimisRateLimitError msg n) = Some n \<and>
            status_code (PrimisRateLimitError msg n) = Some 429 \<and>
            code (PrimisRateLimitError msg n) = JStr ''RATE_LIMIT_EXCEEDED'' \<and>
            message (PrimisRateLimitError msg n) = msg)"
proof -
  have nok: "\<not> ok r" using st by (simp add: ok_def)
  have t: "translate path (Responded r) =
      (case py_int (headers_get (resp_headers r) ''Retry-After'' 60) of
              Inl b \<Rightarrow> Inl (Builtin b)
            | Inr ra \<Rightarrow> Inl (Primis (PrimisRateLimitError
                  (field_or kvs ''error'' (JStr ''HTTP 429'')) ra)))"
    by (simp add: translate_error_object [OF js nok] st str_int_429 cong: sum.case_cong)
  have attrs: "\<And>msg n. cls (PrimisRateLimitError msg n) = PrimisRateLimitError_class \<and>
            retry_after (PrimisRateLimitError msg n) = Some n \<and>
            status_code (PrimisRateLimitError msg n) = Some 429 \<and>
            code (PrimisRateLimitError msg n) = JStr ''RATE_LIMIT_EXCEEDED'' \<and>
            message (PrimisRateLimitError msg n) = msg"
    by (simp add: PrimisRateLimitError_def PrimisAPIError_def PrimisError_def)
  show ?thesis
    using attrs by (auto simp: request_eq out t)
qed

text \<open>A header in lower case with the value 12, and a response without the header.\<close>

theorem request_rate_limited_witness:
  "fst (request demo_client ''GET'' ''/api/files'' None None
          (scene ticking (always (reply 429 [(''retry-after'', ''12'')]
                                    (Some (JObj [(''error'', JStr ''Too many requests'')])))))) =
     Inl (Primis (PrimisRateLimitError (JStr ''Too many requests'') 12)) \<and>
   retry_after (PrimisRateLimitError (JStr ''Too many requests'') 12) = Some 12 \<and>
   fst (request demo_client ''GET'' ''/api/files'' None None
          (scene ticking (always (reply 429 [] (Some (JObj [])))))) =
     Inl (Primis (PrimisRateLimitError (JStr ''HTTP 429'') 60)) \<and>
   retry_after (PrimisRateLimitError (JStr ''HTTP 429'') 60) = Some 60"
proof -
  let ?r1 = "\<lparr>resp_status_code = 429, resp_headers = [(''retry-after'', ''12'')],
              resp_json = Some (JObj [(''error'', JStr ''Too many requests'')])\<rparr>"
  let ?r2 = "\<lparr>resp_status_code = 429, resp_headers = [],
              resp_json = Some (JObj [])\<rparr>"
  let ?rq = "the_request demo_client ''GET'' ''/api/files'' None None"
  let ?w1 = "scene ticking (always (Responded ?r1))"
  let ?w2 = "scene ticking (always (Responded ?r2))"
  have o1: "server ?w1 (sent ?w1) ?rq = Responded ?r1"
    by (simp add: scene_simps)
  have o2: "server ?w2 (sent ?w2) ?rq = Responded ?r2"
    by (simp add: scene_simps)
  note given = request_rate_limited [OF o1, of "[(''error'', JStr ''Too many requests'')]"]
  note absent = request_rate_limited [OF o2, of "[]"]
  from given [THEN conjunct2, THEN conjunct1, rule_format, of "''12''" 12]
       given [THEN conjunct2, THEN conjunct2, rule_format,
              of "JStr ''Too many requests''" 12]
       absent [THEN conjunct1, rule_format]
       absent [THEN conjunct2, THEN conjunct2, rule_format, of "JStr ''HTTP 429''" 60]
  show ?thesis
    by (simp add: reply_def field_or_def headers_get_def lower_char_def
          int_str_def strip_def is_space_def is_digit_def digit_val_def int_max_str_digits_def)
qed

text \<open>
  As C3 is written it holds of every response with status 429. The body is parsed before
  the status is looked at: a 429 whose body is not JSON raises the parse error, a
  \<^verbatim>\<open>PrimisError\<close> with the code \<open>PARSE_ERROR\<close>, whatever its \<^verbatim>\<open>Retry-After\<close> header says.
\<close>

theorem request_rate_limited_not_json:
  "fst (request demo_client ''GET'' ''/api/files'' None None
          (scene ticking (always (reply 429 [(''Retry-After'', ''5'')] None)))) =
     Inl (Primis (PrimisError (JStr ''Invalid JSON response from /api/files'')
                              (JStr ''PARSE_ERROR''))) \<and>
   cls (PrimisError (JStr ''Invalid JSON response from /api/files'') (JStr ''PARSE_ERROR'')) =
     PrimisError_class"
  by (simp add: request_simps PrimisError_def)

text \<open>
  C5, as the code has it. Let the response have a status from 400 to 599 other than 401
  and 429, and a body that is a JSON object. Then \<open>request\<close> raises \<^verbatim>\<open>PrimisAPIError\<close>
  whose \<open>status_code\<close> is the status of the response, whose \<open>code\<close> is the \<open>code\<close> field
  of the body, or \<open>HTTP_ERROR\<close> without one, and whose \<open>message\<close> is the \<open>error\<close> field of
  the body, or \<^verbatim>\<open>HTTP <status>\<close> without one.
\<close>

theorem request_api_error:
  assumes out: "server w (sent w) (the_request c method path body params) = Responded r"
    and lo: "400 \<le> resp_status_code r" and hi: "resp_status_code r < 600"
    and n401: "resp_status_code r \<noteq> 401" and n429: "resp_status_code r \<noteq> 429"
    and js: "resp_json r = Some (JObj kvs)"
  shows "(let e = PrimisAPIError
                    (field_or kvs ''error'' (JStr (''HTTP '' @ str_int (resp_status_code r))))
                    (field_or kvs ''code'' (JStr ''HTTP_ERROR''))
                    (resp_status_code r)
          in fst (request c method path body params w) = Inl (Primis e) \<and>
             cls e = PrimisAPIError_class \<and>
             status_code e = Some (resp_status_code r) \<and>
             code e = field_or kvs ''code'' (JStr ''HTTP_ERROR'') \<and>
             message e = field_or kvs ''error'' (JStr (''HTTP '' @ str_int (resp_status_code r))))"
proof -
  have nok: "\<not> ok r" using lo hi by (simp add: ok_def)
  show ?thesis
    using n401 n429
    by (simp add: request_eq out translate_error_object [OF js nok]
          PrimisAPIError_def PrimisError_def Let_def)
qed

text \<open>A 404 with an \<open>error\<close> field and no \<open>code\<close>; a 503 with a \<open>code\<close> and no \<open>error\<close>.\<close>

theorem request_api_error_witness:
  "fst (request demo_client ''GET'' ''/api/files'' None None
          (scene ticking (always (reply 404 [] (Some (JObj [(''error'', JStr ''No such file'')])))))) =
     Inl (Primis (PrimisAPIError (JStr ''No such file'') (JStr ''HTTP_ERROR'') 404)) \<and>
   fst (request demo_client ''GET'' ''/api/files'' None None
          (scene ticking (always (reply 503 [] (Some (JObj [(''code'', JStr ''BUSY'')])))))) =
     Inl (Primis (PrimisAPIError (JStr ''HTTP 503'') (JStr ''BUSY'') 503))"
proof -
  let ?r1 = "\<lparr>resp_status_code = 404, resp_headers = [],
              resp_json = Some (JObj [(''error'', JStr ''No such file'')])\<rparr>"
  let ?r2 = "\<lparr>resp_status_code = 503, resp_headers = [],
              resp_json = Some (JObj [(''code'', JStr ''BUSY'')])\<rparr>"
  let ?rq = "the_request demo_client ''GET'' ''/api/files'' None None"
  let ?w1 = "scene ticking (always (Responded ?r1))"
  let ?w2 = "scene ticking (always (Responded ?r2))"
  have o1: "server ?w1 (sent ?w1) ?rq = Responded ?r1"
    by (simp add: scene_simps)
  have o2: "server ?w2 (sent ?w2) ?rq = Responded ?r2"
    by (simp add: scene_simps)
  from request_api_error [OF o1, of "[(''error'', JStr ''No such file'')]"]
       request_api_error [OF o2, of "[(''code'', JStr ''BUSY'')]"]
  show ?thesis
    by (simp add: reply_def field_or_def str_int_def digits.simps Let_def)
qed

text \<open>
  As C5 is written it holds of every status outside 200 to 299. \<open>request\<close> asks
  \<^verbatim>\<open>response.ok\<close>, which is false from 400 to 599 only: a 300 with a JSON body is
  returned to the caller like a success.
\<close>

theorem request_multiple_choices_returns:
  "fst (request demo_client ''GET'' ''/api/files'' None None
          (scene ticking (always (reply 300 [] (Some (JObj [])))))) = Inr (JObj [])"
  by (simp add: request_simps)

text \<open>
  C7, as the code has it. Let the response have status 401 and a body that is a JSON
  object, whatever its entries. Then \<open>request\<close> raises \<^verbatim>\<open>PrimisAuthError\<close> with status
  401 and the code \<open>AUTH_ERROR\<close>; its message is the \<open>error\<close> field of the body, or
  \<open>HTTP 401\<close> without one. A \<open>code\<close> field of the body is ignored.
\<close>

theorem request_unauthorized:
  assumes out: "server w (sent w) (the_request c method path body params) = Responded r"
    and st: "resp_status_code r = 401"
    and js: "resp_json r = Some (JObj kvs)"
  shows "(let e = PrimisAuthError (field_or kvs ''error'' (JStr ''HTTP 401''))
          in fst (request c method path body params w) = Inl (Primis e) \<and>
             cls e = PrimisAuthError_class \<and>
             status_code e = Some 401 \<and>
             code e = JStr ''AUTH_ERROR'' \<and>
             message e = field_or kvs ''error'' (JStr ''HTTP 401''))"
proof -
  have nok: "\<not> ok r" using st by (simp add: ok_def)
  show ?thesis
    using st
    by (simp add: request_eq out translate_error_object [OF js nok] str_int_401
          PrimisAuthError_def PrimisAPIError_def PrimisError_def Let_def)
qed

text \<open>A 401 whose body carries a message and a code of its own.\<close>

theorem request_unauthorized_witness:
  "fst (request demo_client ''GET'' ''/api/files'' None None
          (scene ticking (always (reply 401 []
             (Some (JObj [(''error'', JStr ''Invalid API key''), (''code'', JStr ''E17'')])))))) =
     Inl (Primis (PrimisAuthError (JStr ''Invalid API key''))) \<and>
   status_code (PrimisAuthError (JStr ''Invalid API key'')) = Some 401 \<and>
   code (PrimisAuthError (JStr ''Invalid API key'')) = JStr ''AUTH_ERROR''"
proof -
  let ?r = "\<lparr>resp_status_code = 401, resp_headers = [],
             resp_json = Some (JObj [(''error'', JStr ''Invalid API key''), (''code'', JStr ''E17'')])\<rparr>"
  let ?rq = "the_request demo_client ''GET'' ''/api/files'' None None"
  let ?w = "scene ticking (always (Responded ?r))"
  have o: "server ?w (sent ?w) ?rq = Responded ?r"
    by (simp add: scene_simps)
  from request_unauthorized [OF o, of "[(''error'', JStr ''Invalid API key''), (''code'', JStr ''E17'')]"]
  show ?thesis
    by (simp add: reply_def field_or_def Let_def)
qed

text \<open>
  As C7 is written it holds whatever the body contains. A 401 whose body is not JSON
  raises the parse error instead, since the body is parsed first.
\<close>

theorem request_unauthorized_not_json:
  "fst (request demo_client ''GET'' ''/api/files'' None None
          (scene ticking (always (reply 401 [] None)))) =
     Inl (Primis (PrimisError (JStr ''Invalid JSON response from /api/files'')
                              (JStr ''PARSE_ERROR''))) \<and>
   cls (PrimisError (JStr ''Invalid JSON response from /api/files'') (JStr ''PARSE_ERROR'')) =
     PrimisError_class \<and>
   PrimisError (JStr ''Invalid JSON response from /api/files'') (JStr ''PARSE_ERROR'') \<noteq>
     PrimisAuthError (JStr ''HTTP 401'')"
  by (simp add: request_simps PrimisError_def PrimisAuthError_def PrimisAPIError_def)

text \<open>
  C6 on two responses the server can send. A 500 whose body is valid JSON but not an
  object (here a string) makes \<^verbatim>\<open>data.get\<close> raise \<^verbatim>\<open>AttributeError\<close>; a 429 whose
  \<^verbatim>\<open>Retry-After\<close> header is an HTTP date makes \<^verbatim>\<open>int()\<close> raise \<^verbatim>\<open>ValueError\<close>.
  Neither is caught, so an exception that is no \<^verbatim>\<open>PrimisError\<close> reaches the caller of
  \<open>request\<close>.
\<close>

theorem request_untyped_exceptions:
  "fst (request demo_client ''GET'' ''/api/files'' None None
          (scene ticking (always (reply 500 [] (Some (JStr ''Internal Server Error'')))))) =
     Inl (Builtin AttributeError) \<and>
   fst (request demo_client ''GET'' ''/api/files'' None None
          (scene ticking (always
             (reply 429 [(''Retry-After'', ''Wed, 21 Oct 2015 07:28:00 GMT'')]
                (Some (JObj [(''error'', JStr ''Too many requests'')])))))) =
     Inl (Builtin ValueError) \<and>
   \<not> typed (Builtin AttributeError) \<and> \<not> typed (Builtin ValueError)"
  by (simp add: request_simps)

section \<open>Construction of a session\<close>

text \<open>\<open>rstrip\<close> leaves exactly the strings alone that do not end in the character.\<close>

lemma rstrip_same: "rstrip c s = s \<longleftrightarrow> (s = [] \<or> last s \<noteq> c)"
proof (cases s rule: rev_cases)
  case Nil
  then show ?thesis by (simp add: rstrip_def)
next
  case (snoc ys y)
  show ?thesis
  proof (cases "y = c")
    case False
    with snoc show ?thesis by (simp add: rstrip_def)
  next
    case True
    have "length (dropWhile (\<lambda>x. x = c) (rev ys)) \<le> length ys"
      using length_dropWhile_le [of "\<lambda>x. x = c" "rev ys"] by simp
    then have "length (rstrip c s) < length s"
      using snoc True by (simp add: rstrip_def)
    then have "rstrip c s \<noteq> s" by auto
    with snoc True show ?thesis by simp
  qed
qed

text \<open>
  C4, as the code has it. A session built with a credential that begins with \<open>prmis_\<close>
  reads back the timeout it was given, and the base endpoint it was given with every
  trailing \<open>/\<close> removed: exactly the value passed if and only if that value does not end
  in \<open>/\<close>. Construction leaves the world as it was.
\<close>

theorem session_configuration_read_back:
  assumes "prefix ''prmis_'' key"
  shows "\<exists>p. Primis_init key url tmo w = (Inr p, w) \<and>
             timeout (client p) = tmo \<and>
             Primis_base_url p = rstrip CHR ''/'' url \<and>
             (Primis_base_url p = url) = (url = [] \<or> last url \<noteq> CHR ''/'')"
  using assms
  by (simp add: Primis_init_def HttpClient_init_def Primis_base_url_def rstrip_same)

text \<open>The defaults, passed explicitly.\<close>

theorem session_configuration_read_back_witness:
  "prefix ''prmis_'' ''prmis_demo'' \<and>
   fst (Primis_init ''prmis_demo'' ''http://localhost:3001'' 30 (scene ticking (always (reply 200 [] None)))) =
     Inr demo_session \<and>
   timeout (client demo_session) = 30 \<and>
   Primis_base_url demo_session = ''http://localhost:3001''"
  using session_configuration_read_back
          [of "''prmis_demo''" "''http://localhost:3001''" 30
              "scene ticking (always (reply 200 [] None))"]
  by (auto simp: Primis_init_def HttpClient_init_def demo_session_def demo_client_def
        Primis_base_url_def rstrip_def)

text \<open>
  As C4 is written the base endpoint reads back as passed. \<^verbatim>\<open>HttpClient.__init__\<close>
  stores \<^verbatim>\<open>base_url.rstrip("/")\<close>: an endpoint passed with a trailing slash reads back
  without it.
\<close>

theorem session_base_url_trailing_slash:
  "fst (Primis_init ''prmis_demo'' ''http://localhost:3001/'' 30
          (scene ticking (always (reply 200 [] None)))) = Inr demo_session \<and>
   Primis_base_url demo_session = ''http://localhost:3001'' \<and>
   Primis_base_url demo_session \<noteq> ''http://localhost:3001/''"
  by (simp add: Primis_init_def HttpClient_init_def demo_session_def demo_client_def
        Primis_base_url_def rstrip_def)

text \<open>
  C9. For every credential that does not begin with \<open>prmis_\<close>, the construction of a
  session (and of the \<open>HttpClient\<close> inside it) raises \<^verbatim>\<open>PrimisError\<close>, the base class of
  the typed errors, with the code \<open>UNKNOWN\<close>; the world is handed back as it was given,
  so no request has been sent.
\<close>

theorem invalid_credential_rejected:
  assumes "\<not> prefix ''prmis_'' key"
  shows "(let e = PrimisError1 (JStr (''Invalid API key format. Keys must start with '' @
                                      [CHR 0x27] @ ''prmis_'' @ [CHR 0x27]))
          in Primis_init key url tmo w = (Inl (Primis e), w) \<and>
             HttpClient_init key url tmo w = (Inl (Primis e), w) \<and>
             cls e = PrimisError_class \<and>
             code e = JStr ''UNKNOWN'')"
  using assms
  by (simp add: Primis_init_def HttpClient_init_def PrimisError1_def PrimisError_def Let_def)

text \<open>A key of another service.\<close>

theorem invalid_credential_rejected_witness:
  "\<not> prefix ''prmis_'' ''sk_live_123'' \<and>
   Primis_init ''sk_live_123'' ''http://localhost:3001'' 30
       (scene ticking (always (reply 200 [] None))) =
     (Inl (Primis (PrimisError1 (JStr (''Invalid API key format. Keys must start with '' @
                                        [CHR 0x27] @ ''prmis_'' @ [CHR 0x27])))),
      scene ticking (always (reply 200 [] None))) \<and>
   trace (snd (Primis_init ''sk_live_123'' ''http://localhost:3001'' 30
                 (scene ticking (always (reply 200 [] None))))) = []"
  using invalid_credential_rejected
          [of "''sk_live_123''" "''http://localhost:3001''" 30
              "scene ticking (always (reply 200 [] None))"]
  by (simp add: Let_def scene_def)

end
